theory Spec2Isabelle
  imports Main "HOL-Library.Word"
begin

section \<open>Machine types and constants\<close>

text \<open>
  The two resources of \<^verbatim>\<open>include/rmm/mr/device\<close> are embedded over an explicit
  world: every call the code makes into the operating system, the device runtime or the
  logger is appended to a trace, and what the callee answers is read from the world.
  \<^verbatim>\<open>std::size_t\<close> and \<^verbatim>\<open>void *\<close> are 64-bit words, \<^verbatim>\<open>int\<close> and
  \<^verbatim>\<open>cudaError_t\<close> are 32-bit words.
\<close>

type_synonym size_t = "64 word"
type_synonym ptr = "64 word"
type_synonym c_int = "32 word"
type_synonym cudaError_t = "32 word"
type_synonym cuda_stream_view = "64 word"

definition nullptr :: ptr where
  "nullptr = 0"

text \<open>\<^verbatim>\<open>MAP_FAILED\<close> is \<^verbatim>\<open>(void *) -1\<close>.\<close>

definition MAP_FAILED :: ptr where
  "MAP_FAILED = - 1"

definition cudaSuccess :: cudaError_t where
  "cudaSuccess = 0"

datatype oflag = O_RDWR | O_CREAT

datatype prot_flag = PROT_READ | PROT_WRITE

datatype map_flag = MAP_SHARED

datatype register_flag = cudaHostRegisterPortable

text \<open>The permission bits \<^verbatim>\<open>0666\<close> (octal).\<close>

definition mode_0666 :: nat where
  "mode_0666 = 6 * 64 + 6 * 8 + 6"

section \<open>The world: calls made and answers received\<close>

datatype call =
    cudaMallocHost_call size_t
  | cudaFreeHost_call ptr
  | shm_open_call string "oflag set" nat
  | ftruncate_call c_int size_t
  | sleep_for_call nat
  | mmap_call ptr size_t "prot_flag set" map_flag c_int nat
  | cudaHostRegister_call ptr size_t register_flag
  | cudaHostUnregister_call ptr
  | munmap_call ptr size_t
  | shm_unlink_call string
  | cudaMemGetInfo_call
  | RMM_LOG_ERROR_call string

text \<open>
  \<open>trace\<close> is the list of calls made so far, oldest first. \<open>shm_open_count\<close> counts
  the calls of \<^verbatim>\<open>shm_open\<close>, and \<open>shm_open_ret w k\<close> is what the call number \<open>k\<close>
  returns: the follower's loop calls it again and again, so its answer may change from one
  attempt to the next. Every other field is the answer of a call that an operation makes
  at most once.
\<close>

record world =
  trace :: "call list"
  shm_open_count :: nat
  shm_open_ret :: "nat \<Rightarrow> c_int"
  ftruncate_ret :: c_int
  mmap_ret :: ptr
  munmap_ret :: c_int
  shm_unlink_ret :: c_int
  cudaMallocHost_ret :: "cudaError_t \<times> ptr"
  cudaFreeHost_ret :: cudaError_t
  cudaHostRegister_ret :: cudaError_t
  cudaHostUnregister_ret :: cudaError_t
  cudaMemGetInfo_ret :: "cudaError_t \<times> size_t \<times> size_t"

definition emit :: "call \<Rightarrow> world \<Rightarrow> world" where
  "emit c w = w\<lparr>trace := trace w @ [c]\<rparr>"

text \<open>The calls made between an earlier world and a later one.\<close>

definition calls_since :: "world \<Rightarrow> world \<Rightarrow> call list" where
  "calls_since w w' = drop (length (trace w)) (trace w')"

definition cudaMallocHost :: "size_t \<Rightarrow> world \<Rightarrow> (cudaError_t \<times> ptr) \<times> world" where
  "cudaMallocHost bytes w = (cudaMallocHost_ret w, emit (cudaMallocHost_call bytes) w)"

definition cudaFreeHost :: "ptr \<Rightarrow> world \<Rightarrow> cudaError_t \<times> world" where
  "cudaFreeHost p w = (cudaFreeHost_ret w, emit (cudaFreeHost_call p) w)"

definition shm_open :: "string \<Rightarrow> oflag set \<Rightarrow> nat \<Rightarrow> world \<Rightarrow> c_int \<times> world" where
  "shm_open name oflags mode w =
     (shm_open_ret w (shm_open_count w),
      (emit (shm_open_call name oflags mode) w)\<lparr>shm_open_count := Suc (shm_open_count w)\<rparr>)"

definition ftruncate :: "c_int \<Rightarrow> size_t \<Rightarrow> world \<Rightarrow> c_int \<times> world" where
  "ftruncate fd len w = (ftruncate_ret w, emit (ftruncate_call fd len) w)"

definition sleep_for :: "nat \<Rightarrow> world \<Rightarrow> world" where
  "sleep_for ms w = emit (sleep_for_call ms) w"

definition mmap ::
  "ptr \<Rightarrow> size_t \<Rightarrow> prot_flag set \<Rightarrow> map_flag \<Rightarrow> c_int \<Rightarrow> nat \<Rightarrow> world \<Rightarrow> ptr \<times> world" where
  "mmap addr len pr fl fd off w = (mmap_ret w, emit (mmap_call addr len pr fl fd off) w)"

definition cudaHostRegister ::
  "ptr \<Rightarrow> size_t \<Rightarrow> register_flag \<Rightarrow> world \<Rightarrow> cudaError_t \<times> world" where
  "cudaHostRegister p bytes fl w =
     (cudaHostRegister_ret w, emit (cudaHostRegister_call p bytes fl) w)"

definition cudaHostUnregister :: "ptr \<Rightarrow> world \<Rightarrow> cudaError_t \<times> world" where
  "cudaHostUnregister p w = (cudaHostUnregister_ret w, emit (cudaHostUnregister_call p) w)"

definition munmap :: "ptr \<Rightarrow> size_t \<Rightarrow> world \<Rightarrow> c_int \<times> world" where
  "munmap p len w = (munmap_ret w, emit (munmap_call p len) w)"

definition shm_unlink :: "string \<Rightarrow> world \<Rightarrow> c_int \<times> world" where
  "shm_unlink name w = (shm_unlink_ret w, emit (shm_unlink_call name) w)"

definition cudaMemGetInfo :: "world \<Rightarrow> (cudaError_t \<times> size_t \<times> size_t) \<times> world" where
  "cudaMemGetInfo w = (cudaMemGetInfo_ret w, emit cudaMemGetInfo_call w)"

section \<open>Failures and the macros of \<^verbatim>\<open>rmm/detail/error.hpp\<close>\<close>

text \<open>
  \<open>bad_alloc\<close> is \<^verbatim>\<open>rmm::bad_alloc\<close> (the allocation failure), \<open>cuda_error\<close> is
  \<^verbatim>\<open>rmm::cuda_error\<close> (the query failure), \<open>fatal_assertion\<close> is the failed
  assertion that ends the process.
\<close>

datatype failure = bad_alloc | cuda_error | fatal_assertion

text \<open>
  Modelled from the spec: the macro \<^verbatim>\<open>RMM_CUDA_TRY\<close> of
  \<^verbatim>\<open>rmm/detail/error.hpp\<close>, which is not among the sources. The operation fails
  with the given kind of failure when the runtime call does not report success.
\<close>

definition RMM_CUDA_TRY :: "cudaError_t \<Rightarrow> failure \<Rightarrow> failure + unit" where
  "RMM_CUDA_TRY status exc = (if status = cudaSuccess then Inr () else Inl exc)"

text \<open>
  Modelled from the spec: the macro \<^verbatim>\<open>RMM_ASSERT_CUDA_SUCCESS\<close> of
  \<^verbatim>\<open>rmm/detail/error.hpp\<close>, which is not among the sources. A runtime call that
  does not report success is a fatal assertion.
\<close>

definition RMM_ASSERT_CUDA_SUCCESS :: "cudaError_t \<Rightarrow> failure + unit" where
  "RMM_ASSERT_CUDA_SUCCESS status =
     (if status = cudaSuccess then Inr () else Inl fatal_assertion)"

text \<open>
  Modelled from the spec: the macro \<^verbatim>\<open>RMM_LOG_ERROR\<close> of the logger, which is not
  among the sources. The logger is a sink that accepts the message.
\<close>

definition RMM_LOG_ERROR :: "string \<Rightarrow> world \<Rightarrow> world" where
  "RMM_LOG_ERROR msg w = emit (RMM_LOG_ERROR_call msg) w"

section \<open>The resources\<close>

text \<open>The field \<open>local_rank\<close> is the member \<^verbatim>\<open>local_rank_\<close>.\<close>

record shared_memory_resource =
  local_rank :: c_int

datatype device_memory_resource =
    Pinned
  | Shared shared_memory_resource

subsection \<open>Capability queries\<close>

definition pinned_supports_streams :: bool where
  "pinned_supports_streams = False"

definition pinned_supports_get_mem_info :: bool where
  "pinned_supports_get_mem_info = True"

definition shared_supports_streams :: "shared_memory_resource \<Rightarrow> bool" where
  "shared_supports_streams self = False"

definition shared_supports_get_mem_info :: "shared_memory_resource \<Rightarrow> bool" where
  "shared_supports_get_mem_info self = True"

fun supports_streams :: "device_memory_resource \<Rightarrow> bool" where
  "supports_streams Pinned = pinned_supports_streams"
| "supports_streams (Shared self) = shared_supports_streams self"

fun supports_get_mem_info :: "device_memory_resource \<Rightarrow> bool" where
  "supports_get_mem_info Pinned = pinned_supports_get_mem_info"
| "supports_get_mem_info (Shared self) = shared_supports_get_mem_info self"

subsection \<open>\<^verbatim>\<open>pinned_memory_resource\<close>\<close>

definition pinned_do_allocate ::
  "size_t \<Rightarrow> cuda_stream_view \<Rightarrow> world \<Rightarrow> (failure + ptr) \<times> world" where
  "pinned_do_allocate bytes stream w =
     (if 0 = bytes then (Inr nullptr, w)
      else
        let ((status, p), w1) = cudaMallocHost bytes w in
        case RMM_CUDA_TRY status bad_alloc of
          Inl e \<Rightarrow> (Inl e, w1)
        | Inr _ \<Rightarrow> (Inr p, w1))"

definition pinned_do_deallocate ::
  "ptr \<Rightarrow> size_t \<Rightarrow> cuda_stream_view \<Rightarrow> world \<Rightarrow> (failure + unit) \<times> world" where
  "pinned_do_deallocate p bytes stream w =
     (let (status, w1) = cudaFreeHost p w in
      (RMM_ASSERT_CUDA_SUCCESS status, w1))"

text \<open>\<^verbatim>\<open>dynamic_cast<pinned_memory_resource const *>(&other) != nullptr\<close>\<close>

definition pinned_do_is_equal :: "device_memory_resource \<Rightarrow> bool" where
  "pinned_do_is_equal other = (case other of Pinned \<Rightarrow> True | Shared _ \<Rightarrow> False)"

definition pinned_do_get_mem_info ::
  "cuda_stream_view \<Rightarrow> world \<Rightarrow> (failure + size_t \<times> size_t) \<times> world" where
  "pinned_do_get_mem_info stream w =
     (let ((status, free_size, total_size), w1) = cudaMemGetInfo w in
      case RMM_CUDA_TRY status cuda_error of
        Inl e \<Rightarrow> (Inl e, w1)
      | Inr _ \<Rightarrow> (Inr (free_size, total_size), w1))"

subsection \<open>\<^verbatim>\<open>shared_memory_resource\<close>\<close>

text \<open>
  The loop \<^verbatim>\<open>while (fd == -1) { sleep_for(100ms); fd = shm_open("/shm", O_RDWR, 0666); }\<close>
  of a participant whose rank is not 0. The first argument bounds the number of iterations
  observed: the result is \<open>None\<close> when the loop is still running after that many.
\<close>

fun open_loop :: "nat \<Rightarrow> c_int \<Rightarrow> world \<Rightarrow> c_int option \<times> world" where
  "open_loop 0 fd w = (if fd = - 1 then (None, w) else (Some fd, w))"
| "open_loop (Suc n) fd w =
     (if fd = - 1 then
        let w1 = sleep_for 100 w;
            (fd', w2) = shm_open ''/shm'' {O_RDWR} mode_0666 w1
        in open_loop n fd' w2
      else (Some fd, w))"

text \<open>The common end of \<^verbatim>\<open>do_allocate\<close>: map the segment, register the region.\<close>

definition map_and_register :: "c_int \<Rightarrow> size_t \<Rightarrow> world \<Rightarrow> (failure + ptr) \<times> world" where
  "map_and_register fd bytes w =
     (let (p, w1) = mmap nullptr bytes {PROT_READ, PROT_WRITE} MAP_SHARED fd 0 w in
      if p = MAP_FAILED then (Inr nullptr, RMM_LOG_ERROR ''mmap failed'' w1)
      else
        let (status, w2) = cudaHostRegister p bytes cudaHostRegisterPortable w1 in
        case RMM_CUDA_TRY status bad_alloc of
          Inl e \<Rightarrow> (Inl e, w2)
        | Inr _ \<Rightarrow> (Inr p, w2))"

text \<open>
  The result is \<open>None\<close> when the call has not returned within \<open>n\<close> iterations of the
  follower's loop; the world returned then holds the calls made up to that point.
\<close>

definition shared_do_allocate ::
  "nat \<Rightarrow> shared_memory_resource \<Rightarrow> size_t \<Rightarrow> cuda_stream_view \<Rightarrow> world
     \<Rightarrow> (failure + ptr) option \<times> world" where
  "shared_do_allocate n self bytes stream w =
     (if 0 = bytes then (Some (Inr nullptr), w)
      else if local_rank self = 0 then
        let (fd, w1) = shm_open ''/shm'' {O_RDWR, O_CREAT} mode_0666 w in
        if fd = - 1 then (Some (Inr nullptr), RMM_LOG_ERROR ''shm_open failed'' w1)
        else
          let (r, w2) = ftruncate fd bytes w1 in
          if r = 0 then (Some (Inr nullptr), RMM_LOG_ERROR ''ftruncate failed'' w2)
          else
            let (res, w3) = map_and_register fd bytes w2 in (Some res, w3)
      else
        case open_loop n (- 1) w of
          (None, w1) \<Rightarrow> (None, w1)
        | (Some fd, w1) \<Rightarrow>
            let (res, w2) = map_and_register fd bytes w1 in (Some res, w2))"

definition shared_do_deallocate ::
  "shared_memory_resource \<Rightarrow> ptr \<Rightarrow> size_t \<Rightarrow> cuda_stream_view \<Rightarrow> world
     \<Rightarrow> (failure + unit) \<times> world" where
  "shared_do_deallocate self p bytes stream w =
     (let (status, w1) = cudaHostUnregister p w in
      case RMM_ASSERT_CUDA_SUCCESS status of
        Inl e \<Rightarrow> (Inl e, w1)
      | Inr _ \<Rightarrow>
          let (r, w2) = munmap p bytes w1;
              w3 = (if local_rank self = 0 then snd (shm_unlink ''/shm'' w2) else w2)
          in (Inr (), w3))"

text \<open>\<^verbatim>\<open>dynamic_cast<shared_memory_resource const *>(&other) != nullptr\<close>\<close>

definition shared_do_is_equal ::
  "shared_memory_resource \<Rightarrow> device_memory_resource \<Rightarrow> bool" where
  "shared_do_is_equal self other = (case other of Pinned \<Rightarrow> False | Shared _ \<Rightarrow> True)"

definition shared_do_get_mem_info ::
  "shared_memory_resource \<Rightarrow> cuda_stream_view \<Rightarrow> world
     \<Rightarrow> (failure + size_t \<times> size_t) \<times> world" where
  "shared_do_get_mem_info self stream w =
     (let ((status, free_size, total_size), w1) = cudaMemGetInfo w in
      case RMM_CUDA_TRY status cuda_error of
        Inl e \<Rightarrow> (Inl e, w1)
      | Inr _ \<Rightarrow> (Inr (free_size, total_size), w1))"

subsection \<open>Dispatch through the interface\<close>

fun do_allocate ::
  "nat \<Rightarrow> device_memory_resource \<Rightarrow> size_t \<Rightarrow> cuda_stream_view \<Rightarrow> world
     \<Rightarrow> (failure + ptr) option \<times> world" where
  "do_allocate n Pinned bytes stream w =
     (let (res, w1) = pinned_do_allocate bytes stream w in (Some res, w1))"
| "do_allocate n (Shared self) bytes stream w = shared_do_allocate n self bytes stream w"

fun do_is_equal :: "device_memory_resource \<Rightarrow> device_memory_resource \<Rightarrow> bool" where
  "do_is_equal Pinned other = pinned_do_is_equal other"
| "do_is_equal (Shared self) other = shared_do_is_equal self other"

fun do_get_mem_info ::
  "device_memory_resource \<Rightarrow> cuda_stream_view \<Rightarrow> world
     \<Rightarrow> (failure + size_t \<times> size_t) \<times> world" where
  "do_get_mem_info Pinned stream w = pinned_do_get_mem_info stream w"
| "do_get_mem_info (Shared self) stream w = shared_do_get_mem_info self stream w"

section \<open>Notions used in the statements\<close>

text \<open>The variant of a resource, for comparing \<open>do_is_equal\<close> with equality of variants.\<close>

datatype variant_kind = pinned_kind | shared_kind

fun kind_of :: "device_memory_resource \<Rightarrow> variant_kind" where
  "kind_of Pinned = pinned_kind"
| "kind_of (Shared self) = shared_kind"

text \<open>
  A call creates the segment when it is a \<^verbatim>\<open>shm_open\<close> with \<^verbatim>\<open>O_CREAT\<close> among its
  flags, and sizes it when it is a \<^verbatim>\<open>ftruncate\<close>.
\<close>

fun is_shm_open :: "call \<Rightarrow> bool" where
  "is_shm_open (shm_open_call name oflags mode) = True"
| "is_shm_open c = False"

fun creates :: "call \<Rightarrow> bool" where
  "creates (shm_open_call name oflags mode) = (O_CREAT \<in> oflags)"
| "creates c = False"

fun sizes :: "call \<Rightarrow> bool" where
  "sizes (ftruncate_call fd len) = True"
| "sizes c = False"

text \<open>
  The calls of \<open>j\<close> rounds of the follower's loop: each round sleeps 100 ms and then
  tries to open the segment \<^verbatim>\<open>/shm\<close> read-write, without \<^verbatim>\<open>O_CREAT\<close>.
\<close>

definition retry_calls :: "nat \<Rightarrow> call list" where
  "retry_calls j =
     concat (replicate j [sleep_for_call 100, shm_open_call ''/shm'' {O_RDWR} mode_0666])"

subsection \<open>Example worlds\<close>

text \<open>
  A world in which every call succeeds: \<^verbatim>\<open>shm_open\<close> returns the descriptor 3,
  \<^verbatim>\<open>ftruncate\<close>, \<^verbatim>\<open>munmap\<close> and \<^verbatim>\<open>shm_unlink\<close> return 0, \<^verbatim>\<open>mmap\<close> returns an
  address, the device runtime reports \<^verbatim>\<open>cudaSuccess\<close>.
\<close>

definition healthy_world :: world where
  "healthy_world =
     \<lparr>trace = [], shm_open_count = 0, shm_open_ret = (\<lambda>k. 3), ftruncate_ret = 0,
      mmap_ret = 0x7f0000000000, munmap_ret = 0, shm_unlink_ret = 0,
      cudaMallocHost_ret = (0, 0x10000), cudaFreeHost_ret = 0, cudaHostRegister_ret = 0,
      cudaHostUnregister_ret = 0, cudaMemGetInfo_ret = (0, 1024, 4096)\<rparr>"

text \<open>The segment appears at the third attempt to open it.\<close>

definition late_leader_world :: world where
  "late_leader_world = healthy_world\<lparr>shm_open_ret := (\<lambda>k. if k < 2 then - 1 else 3)\<rparr>"

text \<open>The segment never appears.\<close>

definition absent_leader_world :: world where
  "absent_leader_world = healthy_world\<lparr>shm_open_ret := (\<lambda>k. - 1)\<rparr>"

section \<open>Unfolding the operations\<close>

lemmas prim_defs = emit_def cudaMallocHost_def cudaFreeHost_def shm_open_def ftruncate_def
  sleep_for_def mmap_def cudaHostRegister_def cudaHostUnregister_def munmap_def
  shm_unlink_def cudaMemGetInfo_def RMM_LOG_ERROR_def RMM_CUDA_TRY_def
  RMM_ASSERT_CUDA_SUCCESS_def

lemma calls_sinceI: "trace w' = trace w @ cs \<Longrightarrow> calls_since w w' = cs"
  by (simp add: calls_since_def)

lemma calls_since_self [simp]: "calls_since w w = []"
  by (simp add: calls_since_def)

lemma map_and_register_eq:
  "map_and_register fd bytes w =
     (if mmap_ret w = MAP_FAILED then
        (Inr nullptr,
         w\<lparr>trace := trace w @
           [mmap_call nullptr bytes {PROT_READ, PROT_WRITE} MAP_SHARED fd 0,
            RMM_LOG_ERROR_call ''mmap failed'']\<rparr>)
      else
        (if cudaHostRegister_ret w = cudaSuccess then Inr (mmap_ret w) else Inl bad_alloc,
         w\<lparr>trace := trace w @
           [mmap_call nullptr bytes {PROT_READ, PROT_WRITE} MAP_SHARED fd 0,
            cudaHostRegister_call (mmap_ret w) bytes cudaHostRegisterPortable]\<rparr>))"
  by (simp add: map_and_register_def prim_defs)

lemma leader_allocate_eq:
  "local_rank self = 0 \<Longrightarrow> bytes \<noteq> 0 \<Longrightarrow>
   shared_do_allocate n self bytes stream w =
     (let fd = shm_open_ret w (shm_open_count w);
          w1 = w\<lparr>trace := trace w @ [shm_open_call ''/shm'' {O_RDWR, O_CREAT} mode_0666],
                 shm_open_count := Suc (shm_open_count w)\<rparr>
      in if fd = - 1 then
           (Some (Inr nullptr),
            w1\<lparr>trace := trace w1 @ [RMM_LOG_ERROR_call ''shm_open failed'']\<rparr>)
         else
           let w2 = w1\<lparr>trace := trace w1 @ [ftruncate_call fd bytes]\<rparr>
           in if ftruncate_ret w = 0 then
                (Some (Inr nullptr),
                 w2\<lparr>trace := trace w2 @ [RMM_LOG_ERROR_call ''ftruncate failed'']\<rparr>)
              else (Some (fst (map_and_register fd bytes w2)),
                    snd (map_and_register fd bytes w2)))"
  by (simp add: shared_do_allocate_def prim_defs Let_def split: prod.split)

lemma follower_allocate_eq:
  "local_rank self \<noteq> 0 \<Longrightarrow> bytes \<noteq> 0 \<Longrightarrow>
   shared_do_allocate n self bytes stream w =
     (case open_loop n (- 1) w of
        (None, w1) \<Rightarrow> (None, w1)
      | (Some fd, w1) \<Rightarrow>
          (Some (fst (map_and_register fd bytes w1)), snd (map_and_register fd bytes w1)))"
  by (simp add: shared_do_allocate_def split: prod.split option.split)

section \<open>The follower's loop\<close>

lemma open_loop_done: "fd \<noteq> - 1 \<Longrightarrow> open_loop n fd w = (Some fd, w)"
  by (cases n) simp_all

lemma open_loop_step:
  "open_loop (Suc n) (- 1) w =
     open_loop n (shm_open_ret w (shm_open_count w))
       (w\<lparr>trace := trace w @ retry_calls (Suc 0), shm_open_count := Suc (shm_open_count w)\<rparr>)"
  by (simp add: prim_defs retry_calls_def)

lemma retry_calls_Suc: "retry_calls (Suc 0) @ retry_calls j = retry_calls (Suc j)"
  by (simp add: retry_calls_def)

lemma open_loop_world:
  "\<exists>j. snd (open_loop n fd w) =
     w\<lparr>trace := trace w @ retry_calls j, shm_open_count := shm_open_count w + j\<rparr>"
proof (induction n arbitrary: fd w)
  case 0
  have "snd (open_loop 0 fd w) =
      w\<lparr>trace := trace w @ retry_calls 0, shm_open_count := shm_open_count w + 0\<rparr>"
    by (simp add: retry_calls_def)
  then show ?case by blast
next
  case (Suc n)
  show ?case
  proof (cases "fd = - 1")
    case False
    then have "snd (open_loop (Suc n) fd w) =
        w\<lparr>trace := trace w @ retry_calls 0, shm_open_count := shm_open_count w + 0\<rparr>"
      by (simp add: retry_calls_def)
    then show ?thesis by blast
  next
    case True
    define w2 where
      "w2 = w\<lparr>trace := trace w @ retry_calls (Suc 0), shm_open_count := Suc (shm_open_count w)\<rparr>"
    from Suc.IH [of "shm_open_ret w (shm_open_count w)" w2] obtain j where
      j: "snd (open_loop n (shm_open_ret w (shm_open_count w)) w2) =
        w2\<lparr>trace := trace w2 @ retry_calls j, shm_open_count := shm_open_count w2 + j\<rparr>"
      by blast
    have "snd (open_loop (Suc n) fd w) =
        w\<lparr>trace := trace w @ retry_calls (Suc j), shm_open_count := shm_open_count w + Suc j\<rparr>"
      unfolding True open_loop_step w2_def [symmetric] j
      by (simp add: w2_def retry_calls_Suc)
    then show ?thesis by blast
  qed
qed

lemma open_loop_all_fail:
  "\<forall>i<n. shm_open_ret w (shm_open_count w + i) = - 1 \<Longrightarrow>
   open_loop n (- 1) w =
     (None, w\<lparr>trace := trace w @ retry_calls n, shm_open_count := shm_open_count w + n\<rparr>)"
proof (induction n arbitrary: w)
  case 0
  then show ?case by (simp add: retry_calls_def)
next
  case (Suc n)
  define w2 where
    "w2 = w\<lparr>trace := trace w @ retry_calls (Suc 0), shm_open_count := Suc (shm_open_count w)\<rparr>"
  have fd: "shm_open_ret w (shm_open_count w) = - 1"
    using Suc.prems [rule_format, of 0] by simp
  have "\<forall>i<n. shm_open_ret w2 (shm_open_count w2 + i) = - 1"
    using Suc.prems by (auto simp: w2_def)
  from Suc.IH [OF this] show ?case
    unfolding open_loop_step fd w2_def [symmetric]
    by (simp add: w2_def retry_calls_Suc)
qed

lemma open_loop_first_success:
  "\<forall>i<k. shm_open_ret w (shm_open_count w + i) = - 1 \<Longrightarrow>
   shm_open_ret w (shm_open_count w + k) \<noteq> - 1 \<Longrightarrow> k < n \<Longrightarrow>
   open_loop n (- 1) w =
     (Some (shm_open_ret w (shm_open_count w + k)),
      w\<lparr>trace := trace w @ retry_calls (Suc k), shm_open_count := shm_open_count w + Suc k\<rparr>)"
proof (induction k arbitrary: w n)
  case 0
  then obtain m where n: "n = Suc m" by (cases n) auto
  show ?case using 0
    unfolding n open_loop_step by (simp add: open_loop_done)
next
  case (Suc k)
  then obtain m where n: "n = Suc m" and km: "k < m" by (cases n) auto
  define w2 where
    "w2 = w\<lparr>trace := trace w @ retry_calls (Suc 0), shm_open_count := Suc (shm_open_count w)\<rparr>"
  have fd: "shm_open_ret w (shm_open_count w) = - 1"
    using Suc.prems(1) [rule_format, of 0] by simp
  have a: "\<forall>i<k. shm_open_ret w2 (shm_open_count w2 + i) = - 1"
    using Suc.prems(1) by (auto simp: w2_def)
  have b: "shm_open_ret w2 (shm_open_count w2 + k) \<noteq> - 1"
    using Suc.prems(2) by (simp add: w2_def)
  from Suc.IH [OF a b km] show ?case
    unfolding n open_loop_step fd w2_def [symmetric]
    by (simp add: w2_def retry_calls_Suc)
qed

lemma set_retry_calls:
  "set (retry_calls j) \<subseteq> {sleep_for_call 100, shm_open_call ''/shm'' {O_RDWR} mode_0666}"
  by (induction j) (auto simp: retry_calls_def)

lemma retry_calls_harmless:
  "c \<in> set (retry_calls j) \<Longrightarrow>
     \<not> creates c \<and> \<not> sizes c \<and> (is_shm_open c \<longrightarrow> c = shm_open_call ''/shm'' {O_RDWR} mode_0666)"
  using set_retry_calls [of j] by auto

lemma follower_calls:
  assumes "local_rank self \<noteq> 0"
  shows "\<exists>j cs. calls_since w (snd (shared_do_allocate n self bytes stream w)) = retry_calls j @ cs
     \<and> (\<forall>c\<in>set cs. \<not> creates c \<and> \<not> sizes c \<and> \<not> is_shm_open c)"
proof (cases "bytes = 0")
  case True
  then have "calls_since w (snd (shared_do_allocate n self bytes stream w)) = retry_calls 0 @ []"
    by (simp add: shared_do_allocate_def retry_calls_def)
  then show ?thesis by fastforce
next
  case False
  obtain r w1 where ol: "open_loop n (- 1) w = (r, w1)"
    by (cases "open_loop n (- 1) w")
  from open_loop_world [of n "- 1" w] ol obtain j where
    w1: "w1 = w\<lparr>trace := trace w @ retry_calls j, shm_open_count := shm_open_count w + j\<rparr>"
    by auto
  show ?thesis
  proof (cases r)
    case None
    then have "calls_since w (snd (shared_do_allocate n self bytes stream w)) = retry_calls j @ []"
      using assms False ol by (simp add: follower_allocate_eq w1 calls_sinceI)
    then show ?thesis by fastforce
  next
    case (Some fd)
    define cs where "cs = (if mmap_ret w = MAP_FAILED
          then [mmap_call nullptr bytes {PROT_READ, PROT_WRITE} MAP_SHARED fd 0,
            RMM_LOG_ERROR_call ''mmap failed'']
          else [mmap_call nullptr bytes {PROT_READ, PROT_WRITE} MAP_SHARED fd 0,
            cudaHostRegister_call (mmap_ret w) bytes cudaHostRegisterPortable])"
    have "calls_since w (snd (shared_do_allocate n self bytes stream w)) = retry_calls j @ cs"
      using assms False ol Some
      by (simp add: follower_allocate_eq w1 map_and_register_eq calls_sinceI cs_def)
    moreover have "\<forall>c\<in>set cs. \<not> creates c \<and> \<not> sizes c \<and> \<not> is_shm_open c"
      by (simp add: cs_def)
    ultimately show ?thesis by blast
  qed
qed

lemma register_not_retry:
  "cudaHostRegister_call p bytes fl \<notin> set (retry_calls j)"
  using set_retry_calls [of j] by auto

lemma shared_allocate_raises_iff:
  "(fst (shared_do_allocate n self bytes stream w) = Some (Inl e)) =
     (e = bad_alloc \<and>
      cudaHostRegister_call (mmap_ret w) bytes cudaHostRegisterPortable
        \<in> set (calls_since w (snd (shared_do_allocate n self bytes stream w))) \<and>
      cudaHostRegister_ret w \<noteq> cudaSuccess)"
proof (cases "bytes = 0")
  case True
  then show ?thesis by (simp add: shared_do_allocate_def)
next
  case False
  show ?thesis
  proof (cases "local_rank self = 0")
    case True
    with False show ?thesis
      by (auto simp: leader_allocate_eq map_and_register_eq Let_def calls_sinceI)
  next
    case rank: False
    obtain r w1 where ol: "open_loop n (- 1) w = (r, w1)"
      by (cases "open_loop n (- 1) w")
    from open_loop_world [of n "- 1" w] ol obtain j where
      w1: "w1 = w\<lparr>trace := trace w @ retry_calls j, shm_open_count := shm_open_count w + j\<rparr>"
      by auto
    show ?thesis
    proof (cases r)
      case None
      with rank False ol show ?thesis
        by (simp add: follower_allocate_eq w1 register_not_retry calls_sinceI)
    next
      case (Some fd)
      with rank False ol show ?thesis
        by (auto simp: follower_allocate_eq w1 map_and_register_eq calls_sinceI
            register_not_retry)
    qed
  qed
qed

section \<open>Zero-byte requests\<close>

text \<open>
  C1. For either variant, any rank and any execution context, a request for 0 bytes
  returns the null address and leaves the world as it was: no call to an allocator, the
  operating system or the device is made.
\<close>

theorem allocate_zero_bytes:
  "do_allocate n r 0 stream w = (Some (Inr nullptr), w)"
  by (cases r) (simp_all add: pinned_do_allocate_def shared_do_allocate_def)

section \<open>The leader's path\<close>

text \<open>
  For rank 0 and a request of at least one byte the segment is mapped exactly when
  \<^verbatim>\<open>shm_open\<close> returns a descriptor and \<^verbatim>\<open>ftruncate\<close> returns a value other than 0:
  the test \<^verbatim>\<open>ftruncate(fd, bytes) == 0\<close> takes the branch that logs
  \<^verbatim>\<open>ftruncate failed\<close> when the call reports success.
\<close>

lemma leader_maps_iff:
  assumes "local_rank self = 0" and "bytes \<noteq> 0"
  shows "(mmap_call nullptr bytes {PROT_READ, PROT_WRITE} MAP_SHARED
            (shm_open_ret w (shm_open_count w)) 0
            \<in> set (calls_since w (snd (shared_do_allocate n self bytes stream w)))) =
         (shm_open_ret w (shm_open_count w) \<noteq> - 1 \<and> ftruncate_ret w \<noteq> 0)"
  using assms
  by (simp add: leader_allocate_eq map_and_register_eq Let_def calls_sinceI)

text \<open>
  C2. The specification says that rank 0 returns null with a log entry when creating or sizing the
  segment fails, and goes on to map the segment when both succeed. In the world where
  every call succeeds (\<^verbatim>\<open>shm_open\<close> returns 3, \<^verbatim>\<open>ftruncate\<close> returns 0), a request
  for 4096 bytes logs \<^verbatim>\<open>ftruncate failed\<close> and returns null without calling
  \<^verbatim>\<open>mmap\<close>; where \<^verbatim>\<open>ftruncate\<close> fails with -1, nothing is logged and the segment is
  mapped and registered.
\<close>

theorem leader_sizing_check_inverted:
  "shared_do_allocate n \<lparr>local_rank = 0\<rparr> 4096 stream healthy_world =
     (Some (Inr nullptr),
      healthy_world
        \<lparr>trace := [shm_open_call ''/shm'' {O_RDWR, O_CREAT} mode_0666, ftruncate_call 3 4096,
                   RMM_LOG_ERROR_call ''ftruncate failed''],
         shm_open_count := 1\<rparr>) \<and>
   shared_do_allocate n \<lparr>local_rank = 0\<rparr> 4096 stream (healthy_world\<lparr>ftruncate_ret := - 1\<rparr>) =
     (Some (Inr 0x7f0000000000),
      healthy_world
        \<lparr>trace := [shm_open_call ''/shm'' {O_RDWR, O_CREAT} mode_0666, ftruncate_call 3 4096,
                   mmap_call nullptr 4096 {PROT_READ, PROT_WRITE} MAP_SHARED 3 0,
                   cudaHostRegister_call 0x7f0000000000 4096 cudaHostRegisterPortable],
         shm_open_count := 1, ftruncate_ret := - 1\<rparr>)"
  by (simp add: shared_do_allocate_def map_and_register_def healthy_world_def prim_defs
      cudaSuccess_def MAP_FAILED_def)

section \<open>Who creates the segment\<close>

text \<open>
  C3. Whatever the world answers and however long the run is observed, a participant whose
  rank is not 0 (every rank above 0 in particular) makes no call that creates or sizes the
  segment, and each of its \<^verbatim>\<open>shm_open\<close> calls opens \<^verbatim>\<open>/shm\<close> read-write without
  \<^verbatim>\<open>O_CREAT\<close>; the participant of rank 0 makes, for a request of at least one byte,
  exactly one \<^verbatim>\<open>shm_open\<close> call, and that call carries \<^verbatim>\<open>O_CREAT\<close>.
\<close>

theorem segment_created_by_rank_0_only:
  "(local_rank self \<noteq> 0 \<longrightarrow>
      (\<forall>c \<in> set (calls_since w (snd (shared_do_allocate n self bytes stream w))).
         \<not> creates c \<and> \<not> sizes c \<and>
         (is_shm_open c \<longrightarrow> c = shm_open_call ''/shm'' {O_RDWR} mode_0666))) \<and>
   (local_rank self = 0 \<and> bytes \<noteq> 0 \<longrightarrow>
      filter is_shm_open (calls_since w (snd (shared_do_allocate n self bytes stream w))) =
        [shm_open_call ''/shm'' {O_RDWR, O_CREAT} mode_0666])"
proof (rule conjI)
  show "local_rank self \<noteq> 0 \<longrightarrow>
      (\<forall>c \<in> set (calls_since w (snd (shared_do_allocate n self bytes stream w))).
         \<not> creates c \<and> \<not> sizes c \<and>
         (is_shm_open c \<longrightarrow> c = shm_open_call ''/shm'' {O_RDWR} mode_0666))"
  proof (rule impI, rule ballI)
    fix c
    assume rank: "local_rank self \<noteq> 0"
      and c: "c \<in> set (calls_since w (snd (shared_do_allocate n self bytes stream w)))"
    from follower_calls [OF rank, of w n bytes stream] obtain j cs where
      eq: "calls_since w (snd (shared_do_allocate n self bytes stream w)) = retry_calls j @ cs"
      and cs: "\<forall>c\<in>set cs. \<not> creates c \<and> \<not> sizes c \<and> \<not> is_shm_open c"
      by blast
    from c eq have "c \<in> set (retry_calls j) \<or> c \<in> set cs" by simp
    then show "\<not> creates c \<and> \<not> sizes c \<and>
           (is_shm_open c \<longrightarrow> c = shm_open_call ''/shm'' {O_RDWR} mode_0666)"
    proof
      assume "c \<in> set (retry_calls j)"
      then show ?thesis by (rule retry_calls_harmless)
    next
      assume "c \<in> set cs"
      with cs show ?thesis by blast
    qed
  qed
next
  show "local_rank self = 0 \<and> bytes \<noteq> 0 \<longrightarrow>
      filter is_shm_open (calls_since w (snd (shared_do_allocate n self bytes stream w))) =
        [shm_open_call ''/shm'' {O_RDWR, O_CREAT} mode_0666]"
    by (simp add: leader_allocate_eq map_and_register_eq Let_def calls_sinceI)
qed

theorem segment_created_by_rank_0_only_witness:
  "local_rank \<lparr>local_rank = 1\<rparr> \<noteq> 0 \<and>
   calls_since late_leader_world
       (snd (shared_do_allocate (Suc (Suc (Suc 0))) \<lparr>local_rank = 1\<rparr> 4096 0 late_leader_world)) =
     retry_calls (Suc (Suc (Suc 0))) @
       [mmap_call nullptr 4096 {PROT_READ, PROT_WRITE} MAP_SHARED 3 0,
        cudaHostRegister_call 0x7f0000000000 4096 cudaHostRegisterPortable] \<and>
   list_all (\<lambda>c. \<not> creates c \<and> \<not> sizes c)
     (calls_since late_leader_world
       (snd (shared_do_allocate (Suc (Suc (Suc 0))) \<lparr>local_rank = 1\<rparr> 4096 0 late_leader_world))) \<and>
   local_rank \<lparr>local_rank = 0\<rparr> = 0 \<and> (4096 :: size_t) \<noteq> 0 \<and>
   filter is_shm_open
     (calls_since healthy_world
       (snd (shared_do_allocate (Suc (Suc (Suc 0))) \<lparr>local_rank = 0\<rparr> 4096 0 healthy_world))) =
     [shm_open_call ''/shm'' {O_RDWR, O_CREAT} mode_0666]"
  using segment_created_by_rank_0_only
      [of "\<lparr>local_rank = 1\<rparr>" late_leader_world "Suc (Suc (Suc 0))" 4096 0]
    segment_created_by_rank_0_only
      [of "\<lparr>local_rank = 0\<rparr>" healthy_world "Suc (Suc (Suc 0))" 4096 0]
  by (simp add: healthy_world_def late_leader_world_def cudaSuccess_def
      shared_do_allocate_def map_and_register_def prim_defs MAP_FAILED_def
      calls_since_def retry_calls_def nullptr_def)

section \<open>The follower waits for the segment\<close>

text \<open>
  C4. For a rank other than 0 and a request of at least one byte: as long as every attempt
  to open the segment has failed, the call has not returned and has done nothing but sleep
  100 ms and try to open the existing segment, once per round; if no attempt ever
  succeeds, the call has not returned after any number of rounds; and when attempt number
  \<open>k\<close> is the first to succeed, the loop ends after exactly \<open>k + 1\<close> rounds and the
  call goes on to map the segment with the descriptor obtained, and returns.
\<close>

theorem follower_open_loop:
  assumes "local_rank self \<noteq> 0" and "bytes \<noteq> 0"
  shows "((\<forall>i<n. shm_open_ret w (shm_open_count w + i) = - 1) \<longrightarrow>
           shared_do_allocate n self bytes stream w =
             (None, w\<lparr>trace := trace w @ retry_calls n,
                       shm_open_count := shm_open_count w + n\<rparr>)) \<and>
         ((\<forall>i. shm_open_ret w (shm_open_count w + i) = - 1) \<longrightarrow>
           (\<forall>m. fst (shared_do_allocate m self bytes stream w) = None)) \<and>
         ((\<forall>i<k. shm_open_ret w (shm_open_count w + i) = - 1) \<and>
          shm_open_ret w (shm_open_count w + k) \<noteq> - 1 \<and> k < n \<longrightarrow>
           shared_do_allocate n self bytes stream w =
             (let w1 = w\<lparr>trace := trace w @ retry_calls (Suc k),
                         shm_open_count := shm_open_count w + Suc k\<rparr>;
                  (res, w2) = map_and_register (shm_open_ret w (shm_open_count w + k)) bytes w1
              in (Some res, w2)))"
proof (intro conjI impI allI)
  assume "\<forall>i<n. shm_open_ret w (shm_open_count w + i) = - 1"
  then show "shared_do_allocate n self bytes stream w =
      (None, w\<lparr>trace := trace w @ retry_calls n, shm_open_count := shm_open_count w + n\<rparr>)"
    using assms by (simp add: follower_allocate_eq open_loop_all_fail)
next
  fix m
  assume "\<forall>i. shm_open_ret w (shm_open_count w + i) = - 1"
  then have "\<forall>i<m. shm_open_ret w (shm_open_count w + i) = - 1" by simp
  then show "fst (shared_do_allocate m self bytes stream w) = None"
    using assms by (simp add: follower_allocate_eq open_loop_all_fail)
next
  assume "(\<forall>i<k. shm_open_ret w (shm_open_count w + i) = - 1) \<and>
          shm_open_ret w (shm_open_count w + k) \<noteq> - 1 \<and> k < n"
  then have "open_loop n (- 1) w =
     (Some (shm_open_ret w (shm_open_count w + k)),
      w\<lparr>trace := trace w @ retry_calls (Suc k), shm_open_count := shm_open_count w + Suc k\<rparr>)"
    by (intro open_loop_first_success) auto
  then show "shared_do_allocate n self bytes stream w =
             (let w1 = w\<lparr>trace := trace w @ retry_calls (Suc k),
                         shm_open_count := shm_open_count w + Suc k\<rparr>;
                  (res, w2) = map_and_register (shm_open_ret w (shm_open_count w + k)) bytes w1
              in (Some res, w2))"
    using assms by (simp add: follower_allocate_eq case_prod_beta Let_def)
qed

theorem follower_open_loop_witness:
  "local_rank \<lparr>local_rank = 1\<rparr> \<noteq> 0 \<and> (4096 :: size_t) \<noteq> 0 \<and>
   shared_do_allocate (Suc (Suc (Suc 0))) \<lparr>local_rank = 1\<rparr> 4096 0 absent_leader_world =
     (None, absent_leader_world\<lparr>trace := retry_calls (Suc (Suc (Suc 0))), shm_open_count := 3\<rparr>) \<and>
   fst (shared_do_allocate (Suc (Suc (Suc 0))) \<lparr>local_rank = 1\<rparr> 4096 0 late_leader_world) =
     Some (Inr 0x7f0000000000) \<and>
   shm_open_count (snd (shared_do_allocate (Suc (Suc (Suc 0))) \<lparr>local_rank = 1\<rparr> 4096 0 late_leader_world)) = 3"
  using follower_open_loop
      [where self = "\<lparr>local_rank = 1\<rparr>" and bytes = 4096 and n = "Suc (Suc (Suc 0))"
        and w = absent_leader_world and stream = 0 and k = 0]
    follower_open_loop
      [where self = "\<lparr>local_rank = 1\<rparr>" and bytes = 4096 and n = "Suc (Suc (Suc 0))"
        and w = late_leader_world and stream = 0 and k = 2]
  by (simp add: healthy_world_def late_leader_world_def absent_leader_world_def
      cudaSuccess_def map_and_register_def prim_defs MAP_FAILED_def retry_calls_def)

section \<open>Equality of resources\<close>

text \<open>
  C5. \<open>do_is_equal A B\<close> holds exactly when \<open>A\<close> and \<open>B\<close> are the same variant: two
  pinned resources are equal, two shared resources are equal whatever their ranks, a
  pinned and a shared resource are not equal, in either order.
\<close>

theorem is_equal_by_variant:
  "do_is_equal A B = (kind_of A = kind_of B) \<and>
   do_is_equal Pinned Pinned \<and>
   do_is_equal (Shared \<lparr>local_rank = r1\<rparr>) (Shared \<lparr>local_rank = r2\<rparr>) \<and>
   \<not> do_is_equal Pinned (Shared s) \<and>
   \<not> do_is_equal (Shared s) Pinned"
  by (cases A; cases B) (simp_all add: pinned_do_is_equal_def shared_do_is_equal_def)

section \<open>Capability queries\<close>

text \<open>
  C6. For every resource of either variant, \<open>supports_streams\<close> is false and
  \<open>supports_get_mem_info\<close> is true; the queries read nothing of the world and cannot
  fail.
\<close>

theorem capability_flags_constant:
  "supports_streams r = False \<and> supports_get_mem_info r = True"
  by (cases r)
    (simp_all add: pinned_supports_streams_def pinned_supports_get_mem_info_def
      shared_supports_streams_def shared_supports_get_mem_info_def)

section \<open>Deallocation of a shared region\<close>

text \<open>
  C7. \<open>shared_do_deallocate\<close> first unregisters the region from the device; when that
  fails it ends with the fatal assertion and makes no further call; otherwise it unmaps the
  region and then, exactly when the rank is 0, unlinks the segment \<^verbatim>\<open>/shm\<close>.
\<close>

theorem shared_deallocate_order:
  "shared_do_deallocate self p bytes stream w =
     (if cudaHostUnregister_ret w = cudaSuccess then
        (Inr (),
         w\<lparr>trace := trace w @ [cudaHostUnregister_call p, munmap_call p bytes] @
            (if local_rank self = 0 then [shm_unlink_call ''/shm''] else [])\<rparr>)
      else (Inl fatal_assertion, w\<lparr>trace := trace w @ [cudaHostUnregister_call p]\<rparr>))"
  by (simp add: shared_do_deallocate_def prim_defs)

text \<open>
  C10. What \<^verbatim>\<open>munmap\<close> and \<^verbatim>\<open>shm_unlink\<close> return is discarded: for every rank, the
  outcome of \<open>shared_do_deallocate\<close> is the fatal assertion when unregistering fails and a
  normal return otherwise, and neither the outcome nor the calls made change when the
  answers of the two operating-system calls are replaced by any other values.
\<close>

theorem shared_deallocate_discards_os_results:
  "fst (shared_do_deallocate self p bytes stream w) =
     (if cudaHostUnregister_ret w = cudaSuccess then Inr () else Inl fatal_assertion) \<and>
   fst (shared_do_deallocate self p bytes stream (w\<lparr>munmap_ret := a, shm_unlink_ret := b\<rparr>)) =
     fst (shared_do_deallocate self p bytes stream w) \<and>
   trace (snd (shared_do_deallocate self p bytes stream (w\<lparr>munmap_ret := a, shm_unlink_ret := b\<rparr>))) =
     trace (snd (shared_do_deallocate self p bytes stream w))"
  by (simp add: shared_do_deallocate_def prim_defs)

section \<open>Allocation failures\<close>

text \<open>
  C8. For a request of at least one byte, the pinned resource makes one call of
  \<^verbatim>\<open>cudaMallocHost\<close>, fails with \<open>bad_alloc\<close> exactly when that call does not report
  success and returns the address it produced otherwise; the shared resource fails with a
  failure exactly when it has called \<^verbatim>\<open>cudaHostRegister\<close> on the mapped region and that
  call did not report success, and the failure is then \<open>bad_alloc\<close>.
\<close>

theorem allocation_failure_iff_device_call_fails:
  assumes "bytes \<noteq> 0"
  shows "pinned_do_allocate bytes stream w =
           (if fst (cudaMallocHost_ret w) = cudaSuccess then Inr (snd (cudaMallocHost_ret w))
            else Inl bad_alloc,
            w\<lparr>trace := trace w @ [cudaMallocHost_call bytes]\<rparr>) \<and>
         ((fst (shared_do_allocate n self bytes stream w) = Some (Inl e)) =
            (e = bad_alloc \<and>
             cudaHostRegister_call (mmap_ret w) bytes cudaHostRegisterPortable
               \<in> set (calls_since w (snd (shared_do_allocate n self bytes stream w))) \<and>
             cudaHostRegister_ret w \<noteq> cudaSuccess))"
  using assms
  by (simp add: shared_allocate_raises_iff pinned_do_allocate_def prim_defs case_prod_beta)

theorem allocation_failure_iff_device_call_fails_witness:
  "(4096 :: size_t) \<noteq> 0 \<and>
   fst (pinned_do_allocate 4096 0 healthy_world) = Inr 0x10000 \<and>
   fst (pinned_do_allocate 4096 0 (healthy_world\<lparr>cudaMallocHost_ret := (2, 0)\<rparr>)) = Inl bad_alloc \<and>
   fst (shared_do_allocate (Suc (Suc (Suc 0))) \<lparr>local_rank = 1\<rparr> 4096 0
          (late_leader_world\<lparr>cudaHostRegister_ret := 2\<rparr>)) = Some (Inl bad_alloc)"
  using allocation_failure_iff_device_call_fails
      [of 4096 0 healthy_world "Suc (Suc (Suc 0))" "\<lparr>local_rank = 1\<rparr>" bad_alloc]
    allocation_failure_iff_device_call_fails
      [of 4096 0 "healthy_world\<lparr>cudaMallocHost_ret := (2, 0)\<rparr>" "Suc (Suc (Suc 0))" "\<lparr>local_rank = 1\<rparr>" bad_alloc]
    allocation_failure_iff_device_call_fails
      [of 4096 0 "late_leader_world\<lparr>cudaHostRegister_ret := 2\<rparr>" "Suc (Suc (Suc 0))" "\<lparr>local_rank = 1\<rparr>" bad_alloc]
  by (simp add: healthy_world_def late_leader_world_def cudaSuccess_def
      shared_do_allocate_def map_and_register_def prim_defs MAP_FAILED_def
      calls_since_def)

section \<open>Memory information\<close>

text \<open>
  C9. The two implementations of \<open>do_get_mem_info\<close> are the same function of the
  execution context and the world: each makes one call of \<^verbatim>\<open>cudaMemGetInfo\<close>, returns
  the pair (free, total) it reports when it succeeds, and fails with \<open>cuda_error\<close>
  exactly when it does not report success.
\<close>

theorem get_mem_info_identical:
  "pinned_do_get_mem_info stream w = shared_do_get_mem_info self stream w \<and>
   do_get_mem_info r stream w =
     (case cudaMemGetInfo_ret w of
        (status, free_size, total_size) \<Rightarrow>
          if status = cudaSuccess then Inr (free_size, total_size) else Inl cuda_error,
      w\<lparr>trace := trace w @ [cudaMemGetInfo_call]\<rparr>) \<and>
   (fst (do_get_mem_info r stream w) = Inl cuda_error) =
     (fst (cudaMemGetInfo_ret w) \<noteq> cudaSuccess)"
  by (cases r)
    (simp_all add: pinned_do_get_mem_info_def shared_do_get_mem_info_def prim_defs
      case_prod_beta)

end
